theory Spec2Isabelle
  imports Complex_Main
begin

section \<open>JavaScript values and numbers\<close>

text \<open>
  The two scripts of the repository, \<^verbatim>\<open>static/main_temp.js\<close> (monthly temperatures) and
  its sibling for monthly precipitations, are the same program up to the property prefix,
  the colour gradient and the number of decimals of the legend labels. The model below
  covers their pure core: the value extractor, the range calculator, the colour mapper,
  the legend generator and the series builder. Fetching the data, the map, the chart and
  the slider are wiring around this core and are left out.

  A JavaScript number is a \<open>jsnum\<close>: \<open>NaN\<close>, the two infinities, or a finite number.
  Finite numbers are real numbers and finite arithmetic is exact: the rounding of
  binary64, the overflow of a finite operation to an infinity and the sign of zero are
  not represented. The special values follow IEEE 754 as ECMAScript prescribes.
\<close>

datatype jsnum = NaN | NegInf | Fin real | PosInf

text \<open>
  The values a month field of a property bag can hold: a missing key reads as
  \<open>Undefined\<close>, a JSON \<^verbatim>\<open>null\<close> as \<open>Null\<close>, a number as \<open>Number\<close>. Month fields
  holding other JSON values (strings, booleans, arrays, objects) are outside the model.
\<close>

datatype jsval = Undefined | Null | Number jsnum

text \<open>\<^verbatim>\<open>ToNumber\<close>, the coercion behind \<^verbatim>\<open>Number(v)\<close>, \<^verbatim>\<open>isNaN(v)\<close> and \<^verbatim>\<open>v - min\<close>.\<close>

fun ToNumber :: "jsval \<Rightarrow> jsnum" where
  "ToNumber Undefined = NaN"
| "ToNumber Null = Fin 0"
| "ToNumber (Number n) = n"

definition isNaN :: "jsval \<Rightarrow> bool" where
  "isNaN v = (ToNumber v = NaN)"

subsection \<open>Comparison\<close>

text \<open>\<^verbatim>\<open>a < b\<close> and \<^verbatim>\<open>a <= b\<close> on numbers: false as soon as one side is \<open>NaN\<close>.\<close>

fun num_lt :: "jsnum \<Rightarrow> jsnum \<Rightarrow> bool" where
  "num_lt NaN _ = False"
| "num_lt _ NaN = False"
| "num_lt _ NegInf = False"
| "num_lt NegInf _ = True"
| "num_lt PosInf _ = False"
| "num_lt (Fin a) (Fin b) = (a < b)"
| "num_lt (Fin a) PosInf = True"

fun num_le :: "jsnum \<Rightarrow> jsnum \<Rightarrow> bool" where
  "num_le NaN _ = False"
| "num_le _ NaN = False"
| "num_le NegInf _ = True"
| "num_le _ PosInf = True"
| "num_le PosInf _ = False"
| "num_le (Fin a) (Fin b) = (a \<le> b)"
| "num_le (Fin a) NegInf = False"

subsection \<open>Arithmetic\<close>

fun js_neg :: "jsnum \<Rightarrow> jsnum" where
  "js_neg NaN = NaN"
| "js_neg NegInf = PosInf"
| "js_neg (Fin a) = Fin (- a)"
| "js_neg PosInf = NegInf"

fun js_add :: "jsnum \<Rightarrow> jsnum \<Rightarrow> jsnum" where
  "js_add NaN _ = NaN"
| "js_add _ NaN = NaN"
| "js_add PosInf NegInf = NaN"
| "js_add NegInf PosInf = NaN"
| "js_add PosInf _ = PosInf"
| "js_add _ PosInf = PosInf"
| "js_add NegInf _ = NegInf"
| "js_add _ NegInf = NegInf"
| "js_add (Fin a) (Fin b) = Fin (a + b)"

definition js_sub :: "jsnum \<Rightarrow> jsnum \<Rightarrow> jsnum" where
  "js_sub a b = js_add a (js_neg b)"

text \<open>The product of an infinity and zero is \<open>NaN\<close>; otherwise the signs multiply.\<close>

definition inf_of_sign :: "bool \<Rightarrow> jsnum" where
  "inf_of_sign positive = (if positive then PosInf else NegInf)"

fun js_mul :: "jsnum \<Rightarrow> jsnum \<Rightarrow> jsnum" where
  "js_mul NaN _ = NaN"
| "js_mul _ NaN = NaN"
| "js_mul (Fin a) (Fin b) = Fin (a * b)"
| "js_mul (Fin a) PosInf = (if a = 0 then NaN else inf_of_sign (0 < a))"
| "js_mul (Fin a) NegInf = (if a = 0 then NaN else inf_of_sign (a < 0))"
| "js_mul PosInf (Fin b) = (if b = 0 then NaN else inf_of_sign (0 < b))"
| "js_mul NegInf (Fin b) = (if b = 0 then NaN else inf_of_sign (b < 0))"
| "js_mul PosInf PosInf = PosInf"
| "js_mul PosInf NegInf = NegInf"
| "js_mul NegInf PosInf = NegInf"
| "js_mul NegInf NegInf = PosInf"

text \<open>
  Division. A finite number over an infinity is zero, an infinity over an infinity and
  zero over zero are \<open>NaN\<close>. The zero divisor is taken as \<open>+0\<close>; the two colour mappers
  never divide by zero (their divisor goes through \<^verbatim>\<open>|| 1\<close>).
\<close>

fun js_div :: "jsnum \<Rightarrow> jsnum \<Rightarrow> jsnum" where
  "js_div NaN _ = NaN"
| "js_div _ NaN = NaN"
| "js_div (Fin a) (Fin b) =
     (if b = 0 then (if a = 0 then NaN else inf_of_sign (0 < a)) else Fin (a / b))"
| "js_div (Fin a) PosInf = Fin 0"
| "js_div (Fin a) NegInf = Fin 0"
| "js_div PosInf (Fin b) = inf_of_sign (0 \<le> b)"
| "js_div NegInf (Fin b) = inf_of_sign (b < 0)"
| "js_div PosInf PosInf = NaN"
| "js_div PosInf NegInf = NaN"
| "js_div NegInf PosInf = NaN"
| "js_div NegInf NegInf = NaN"

text \<open>
  \<^verbatim>\<open>a || b\<close> on a numeric left operand: the falsy numbers are zero and \<open>NaN\<close>.
\<close>

definition js_or :: "jsnum \<Rightarrow> jsnum \<Rightarrow> jsnum" where
  "js_or a b = (if a = Fin 0 \<or> a = NaN then b else a)"

text \<open>\<^verbatim>\<open>a ?? b\<close>: the right operand replaces \<^verbatim>\<open>null\<close> and \<^verbatim>\<open>undefined\<close> only.\<close>

definition js_nullish :: "jsval \<Rightarrow> jsval \<Rightarrow> jsval" where
  "js_nullish a b = (if a = Null \<or> a = Undefined then b else a)"

subsection \<open>The \<^verbatim>\<open>Math\<close> functions the scripts call\<close>

text \<open>
  \<^verbatim>\<open>Math.min(...xs)\<close> starts from \<open>+Infinity\<close>, \<^verbatim>\<open>Math.max(...xs)\<close> from
  \<open>-Infinity\<close>, and both return \<open>NaN\<close> at the first \<open>NaN\<close> argument.
\<close>

fun Math_min_from :: "jsnum \<Rightarrow> jsnum list \<Rightarrow> jsnum" where
  "Math_min_from lowest [] = lowest"
| "Math_min_from lowest (x # xs) =
     (if x = NaN then NaN else Math_min_from (if num_lt x lowest then x else lowest) xs)"

definition Math_min :: "jsnum list \<Rightarrow> jsnum" where
  "Math_min xs = Math_min_from PosInf xs"

fun Math_max_from :: "jsnum \<Rightarrow> jsnum list \<Rightarrow> jsnum" where
  "Math_max_from highest [] = highest"
| "Math_max_from highest (x # xs) =
     (if x = NaN then NaN else Math_max_from (if num_lt highest x then x else highest) xs)"

definition Math_max :: "jsnum list \<Rightarrow> jsnum" where
  "Math_max xs = Math_max_from NegInf xs"

fun Math_abs :: "jsnum \<Rightarrow> jsnum" where
  "Math_abs NaN = NaN"
| "Math_abs NegInf = PosInf"
| "Math_abs (Fin a) = Fin \<bar>a\<bar>"
| "Math_abs PosInf = PosInf"

text \<open>
  \<^verbatim>\<open>Math.round\<close> returns the nearest integer, a tie going up, and leaves \<open>NaN\<close> and the
  infinities alone. Its results are kept in a type of their own, \<open>jsint\<close>, on which the
  conversion to a string is the decimal numeral.
\<close>

datatype jsint = IntNaN | IntNegInf | IntFin int | IntPosInf

fun Math_round :: "jsnum \<Rightarrow> jsint" where
  "Math_round NaN = IntNaN"
| "Math_round NegInf = IntNegInf"
| "Math_round (Fin a) = IntFin \<lfloor>a + 1 / 2\<rfloor>"
| "Math_round PosInf = IntPosInf"

subsection \<open>Numbers as strings\<close>

definition digit_char :: "nat \<Rightarrow> char" where
  "digit_char d = ''0123456789'' ! d"

fun String_nat :: "nat \<Rightarrow> string" where
  "String_nat n = (if n < 10 then [digit_char n] else String_nat (n div 10) @ [digit_char (n mod 10)])"

declare String_nat.simps [simp del]

text \<open>
  \<^verbatim>\<open>String(x)\<close> of a rounded number, as the template literal applies it. (From
  \<open>10^21\<close> on JavaScript switches to the exponent form, which is not modelled: the
  channels of a colour lie between 0 and 255.)
\<close>

fun String_jsint :: "jsint \<Rightarrow> string" where
  "String_jsint IntNaN = ''NaN''"
| "String_jsint IntNegInf = ''-Infinity''"
| "String_jsint IntPosInf = ''Infinity''"
| "String_jsint (IntFin i) = (if i < 0 then ''-'' @ String_nat (nat (- i)) else String_nat (nat i))"

text \<open>\<^verbatim>\<open>s.padStart(n, c)\<close> for a one-character filler.\<close>

definition padStart :: "nat \<Rightarrow> char \<Rightarrow> string \<Rightarrow> string" where
  "padStart n c s = replicate (n - length s) c @ s"

section \<open>The scripts\<close>

text \<open>
  \<open>Temperature\<close> selects \<^verbatim>\<open>static/main_temp.js\<close>, \<open>Precipitation\<close> the sibling
  script. Functions that are the same text in both take the script as their first
  argument; the two colour mappers keep their own names.
\<close>

datatype script = Temperature | Precipitation

subsection \<open>Data\<close>

text \<open>
  A property bag is a dictionary from keys to values. Of a GeoJSON feature only
  \<^verbatim>\<open>properties\<close> is read, of a feature collection only \<^verbatim>\<open>features\<close>. Every
  feature carries a bag: a feature whose \<^verbatim>\<open>properties\<close> member is \<^verbatim>\<open>null\<close> is outside
  the model.
\<close>

type_synonym props = "string \<rightharpoonup> jsval"

record feature =
  properties :: props

record geojson =
  features :: "feature list"

text \<open>\<^verbatim>\<open>props[key]\<close>: a key that is not there reads as \<^verbatim>\<open>undefined\<close>.\<close>

definition get_property :: "props \<Rightarrow> string \<Rightarrow> jsval" where
  "get_property p key = (case p key of None \<Rightarrow> Undefined | Some v \<Rightarrow> v)"

text \<open>The pair \<^verbatim>\<open>{ min, max }\<close> that \<^verbatim>\<open>calcGlobalMinMax\<close> returns.\<close>

record globalStats =
  min_stat :: jsnum
  max_stat :: jsnum

subsection \<open>Value extractor\<close>

definition month_prefix :: "script \<Rightarrow> string" where
  "month_prefix sc = (case sc of Temperature \<Rightarrow> ''temp_'' | Precipitation \<Rightarrow> ''precip_'')"

definition getMonthPropertyName :: "script \<Rightarrow> nat \<Rightarrow> string" where
  "getMonthPropertyName sc month = month_prefix sc @ padStart 2 (CHR ''0'') (String_nat month)"

definition getRegionValue :: "script \<Rightarrow> feature \<Rightarrow> nat \<Rightarrow> jsval" where
  "getRegionValue sc f month =
     (let prop = getMonthPropertyName sc month in get_property (properties f) prop)"

subsection \<open>Range calculator\<close>

text \<open>
  The array \<^verbatim>\<open>vals\<close> once the \<^verbatim>\<open>forEach\<close> over the features is done: the inner loop
  runs \<open>m\<close> from 1 to 12 and pushes \<^verbatim>\<open>Number(v)\<close> when \<open>v\<close> passes the test.
\<close>

definition push_month_value :: "script \<Rightarrow> feature \<Rightarrow> nat \<Rightarrow> jsnum list \<Rightarrow> jsnum list" where
  "push_month_value sc f m vals =
     (let v = getRegionValue sc f m
      in if v \<noteq> Null \<and> v \<noteq> Undefined \<and> \<not> isNaN v then vals @ [ToNumber v] else vals)"

definition collect_vals :: "script \<Rightarrow> geojson \<Rightarrow> jsnum list" where
  "collect_vals sc g =
     fold (\<lambda>f vals. fold (push_month_value sc f) [1..<13] vals) (features g) []"

definition calcGlobalMinMax :: "script \<Rightarrow> geojson \<Rightarrow> globalStats" where
  "calcGlobalMinMax sc g =
     (let vals = collect_vals sc g;
          mn = Math_min vals;
          mx = Math_max vals
      in \<lparr>min_stat = mn, max_stat = mx\<rparr>)"

subsection \<open>Colour mappers\<close>

definition rgb_template :: "jsint \<Rightarrow> jsint \<Rightarrow> jsint \<Rightarrow> string" where
  "rgb_template r g b =
     ''rgb('' @ String_jsint r @ '','' @ String_jsint g @ '','' @ String_jsint b @ '')''"

text \<open>
  The channels \<open>r\<close>, \<open>g\<close>, \<open>b\<close> that a mapper computes once its argument has passed
  the test for an absent value; the mapper itself follows.
\<close>

definition getColorTemp_rgb :: "jsval \<Rightarrow> jsnum \<Rightarrow> jsnum \<Rightarrow> jsint \<times> jsint \<times> jsint" where
  "getColorTemp_rgb v mn mx =
     (let t = js_div (js_sub (ToNumber v) mn) (js_or (js_sub mx mn) (Fin 1));
          s = Math_max [Fin 0, Math_min [Fin 1, t]];
          r = Math_round (js_mul (Fin 255) s);
          g = Math_round (js_mul (Fin 255)
                (js_sub (Fin 1) (js_mul (Math_abs (js_sub s (Fin (1 / 2)))) (Fin 2))));
          b = Math_round (js_mul (Fin 255) (js_sub (Fin 1) s))
      in (r, g, b))"

definition getColorTemp :: "jsval \<Rightarrow> jsnum \<Rightarrow> jsnum \<Rightarrow> string" where
  "getColorTemp v mn mx =
     (if v = Null \<or> v = Undefined \<or> isNaN v then ''#f0f0f0''
      else (case getColorTemp_rgb v mn mx of (r, g, b) \<Rightarrow> rgb_template r g b))"

definition getColor_rgb :: "jsval \<Rightarrow> jsnum \<Rightarrow> jsnum \<Rightarrow> jsint \<times> jsint \<times> jsint" where
  "getColor_rgb v mn mx =
     (let t = js_div (js_sub (ToNumber v) mn) (js_or (js_sub mx mn) (Fin 1));
          s = Math_max [Fin 0, Math_min [Fin 1, t]];
          r = Math_round (js_mul (Fin 255) (js_sub (Fin 1) s));
          g = Math_round (js_mul (Fin 255) (js_sub (Fin 1) s));
          b = IntFin 255
      in (r, g, b))"

definition getColor :: "jsval \<Rightarrow> jsnum \<Rightarrow> jsnum \<Rightarrow> string" where
  "getColor v mn mx =
     (if v = Null \<or> v = Undefined \<or> isNaN v then ''#f0f0f0''
      else (case getColor_rgb v mn mx of (r, g, b) \<Rightarrow> rgb_template r g b))"

text \<open>The mapper each script calls from \<^verbatim>\<open>regionStyle\<close> and \<^verbatim>\<open>updateLegend\<close>.\<close>

definition color_mapper :: "script \<Rightarrow> jsval \<Rightarrow> jsnum \<Rightarrow> jsnum \<Rightarrow> string" where
  "color_mapper sc = (case sc of Temperature \<Rightarrow> getColorTemp | Precipitation \<Rightarrow> getColor)"

subsection \<open>Legend generator\<close>

text \<open>
  \<^verbatim>\<open>updateLegend\<close> empties the element \<^verbatim>\<open>legend-scale\<close> and appends one item per
  step: a colour swatch and a label. The label text \<^verbatim>\<open>v.toFixed(d)\<close> is kept as the
  pair of \<open>v\<close> and \<open>d\<close>; the decimal rendering itself is not modelled. The state is the
  list of items of the element; \<^verbatim>\<open>globalStats\<close> is \<^verbatim>\<open>null\<close> until the data is
  loaded, and then nothing is drawn.
\<close>

datatype label_text = toFixed jsnum nat

record legend_item =
  color_background :: string
  label_textContent :: label_text

definition label_digits :: "script \<Rightarrow> nat" where
  "label_digits sc = (case sc of Temperature \<Rightarrow> 1 | Precipitation \<Rightarrow> 0)"

definition legend_step :: "script \<Rightarrow> jsnum \<Rightarrow> jsnum \<Rightarrow> nat \<Rightarrow> nat \<Rightarrow> legend_item list \<Rightarrow> legend_item list" where
  "legend_step sc mn mx steps i legendDiv =
     (let v = js_add mn (js_mul (js_div (Fin (real i)) (Fin (real steps))) (js_sub mx mn));
          color = color_mapper sc (Number v) mn mx
      in legendDiv @ [\<lparr>color_background = color, label_textContent = toFixed v (label_digits sc)\<rparr>])"

definition updateLegend :: "script \<Rightarrow> globalStats option \<Rightarrow> legend_item list \<Rightarrow> legend_item list" where
  "updateLegend sc stats legendDiv =
     (case stats of
        None \<Rightarrow> legendDiv
      | Some st \<Rightarrow>
          (let mn = min_stat st; mx = max_stat st; steps = 5
           in fold (legend_step sc mn mx steps) [0..<steps + 1] []))"

subsection \<open>Series builder\<close>

definition getMonthlySeries :: "script \<Rightarrow> props \<Rightarrow> jsval list" where
  "getMonthlySeries sc p =
     fold (\<lambda>m arr. (let key = getMonthPropertyName sc m
                     in arr @ [js_nullish (get_property p key) Null])) [1..<13] []"

section \<open>Example inputs\<close>

text \<open>A feature whose bag holds months 1, 6 and 12 only, under both prefixes.\<close>

definition series_example :: feature where
  "series_example = \<lparr>properties =
     [''temp_01'' \<mapsto> Number (Fin 11), ''temp_06'' \<mapsto> Number (Fin 27),
      ''temp_12'' \<mapsto> Number (Fin 12),
      ''precip_01'' \<mapsto> Number (Fin 11), ''precip_06'' \<mapsto> Number (Fin 27),
      ''precip_12'' \<mapsto> Number (Fin 12)]\<rparr>"

text \<open>
  A collection whose extracted values are 2, 5, -1 and an absent one, and a collection
  without any numeric value: a \<^verbatim>\<open>null\<close>, a \<open>NaN\<close> and missing keys only.
\<close>

definition range_example :: geojson where
  "range_example = \<lparr>features =
     [\<lparr>properties = [''temp_01'' \<mapsto> Number (Fin 2), ''temp_02'' \<mapsto> Number (Fin 5),
                      ''precip_01'' \<mapsto> Number (Fin 2), ''precip_02'' \<mapsto> Number (Fin 5)]\<rparr>,
      \<lparr>properties = [''temp_01'' \<mapsto> Number (Fin (- 1)), ''temp_02'' \<mapsto> Null,
                      ''precip_01'' \<mapsto> Number (Fin (- 1)), ''precip_02'' \<mapsto> Null]\<rparr>]\<rparr>"

definition empty_example :: geojson where
  "empty_example = \<lparr>features =
     [\<lparr>properties = [''temp_01'' \<mapsto> Null, ''temp_02'' \<mapsto> Number NaN,
                      ''precip_01'' \<mapsto> Null, ''precip_02'' \<mapsto> Number NaN]\<rparr>,
      \<lparr>properties = Map.empty\<rparr>]\<rparr>"

text \<open>A feature whose third month holds \<open>NaN\<close>.\<close>

definition nan_example :: feature where
  "nan_example = \<lparr>properties =
     [''temp_01'' \<mapsto> Number (Fin 4), ''temp_03'' \<mapsto> Number NaN,
      ''precip_01'' \<mapsto> Number (Fin 4), ''precip_03'' \<mapsto> Number NaN]\<rparr>"

section \<open>Auxiliary notions\<close>

text \<open>The test of the inner loop of \<^verbatim>\<open>calcGlobalMinMax\<close>, named for the proofs.\<close>

definition sample :: "jsval \<Rightarrow> bool" where
  "sample v = (v \<noteq> Null \<and> v \<noteq> Undefined \<and> \<not> isNaN v)"







section \<open>Loops as maps\<close>

lemma fold_snoc_map: "fold (\<lambda>m arr. arr @ [f m]) ms acc = acc @ map f ms"
  by (induction ms arbitrary: acc) simp_all

lemma months_upt: "[1..<13] = [1, 2, 3, 4, 5, 6, 7, 8, 9, 10, 11, 12::nat]"
  by code_simp

section \<open>Series builder\<close>

lemma getMonthlySeries_map:
  "getMonthlySeries sc p =
     map (\<lambda>m. js_nullish (get_property p (getMonthPropertyName sc m)) Null) [1..<13]"
  unfolding getMonthlySeries_def Let_def by (rule trans [OF fold_snoc_map]) simp

lemma getMonthlySeries_length: "length (getMonthlySeries sc p) = 12"
  by (simp add: getMonthlySeries_map)

lemma getMonthlySeries_nth:
  assumes "1 \<le> m" and "m \<le> 12"
  shows "getMonthlySeries sc p ! (m - 1) =
           js_nullish (get_property p (getMonthPropertyName sc m)) Null"
proof -
  have "m - 1 < length [1..<13::nat]" using assms by simp
  then have "getMonthlySeries sc p ! (m - 1) =
      js_nullish (get_property p (getMonthPropertyName sc ([1..<13] ! (m - 1)))) Null"
    unfolding getMonthlySeries_map by (rule nth_map)
  moreover have "[1..<13] ! (m - 1) = m" using assms by simp
  ultimately show ?thesis by simp
qed

lemma getMonthlySeries_nth_feature:
  assumes "m \<in> {1..12}"
  shows "getMonthlySeries sc (properties f) ! (m - 1) = js_nullish (getRegionValue sc f m) Null"
proof -
  from assms have "1 \<le> m" "m \<le> 12" by simp_all
  then show ?thesis
    unfolding getRegionValue_def Let_def by (rule getMonthlySeries_nth)
qed

text \<open>
  C9: for every property bag the series has exactly 12 entries; the entry at index
  \<open>m - 1\<close> is the value extracted for month \<open>m\<close>, or \<open>Null\<close> when that value is
  \<^verbatim>\<open>null\<close> or \<^verbatim>\<open>undefined\<close>. On a bag where only months 1, 6 and 12 are populated the
  series keeps the three values at indices 0, 5 and 11 and holds \<open>Null\<close> at the nine
  other positions.
\<close>

theorem series_builder_twelve:
  "length (getMonthlySeries sc (properties f)) = 12 \<and>
   (\<forall>m\<in>{1..12}. getMonthlySeries sc (properties f) ! (m - 1) =
      (if getRegionValue sc f m = Null \<or> getRegionValue sc f m = Undefined then Null
       else getRegionValue sc f m)) \<and>
   ((\<forall>m\<in>{1..12} - {1, 6, 12}.
        getRegionValue sc f m = Null \<or> getRegionValue sc f m = Undefined) \<and>
    getRegionValue sc f 1 = Number a \<and> getRegionValue sc f 6 = Number b \<and>
    getRegionValue sc f 12 = Number c \<longrightarrow>
    getMonthlySeries sc (properties f) =
      [Number a, Null, Null, Null, Null, Number b, Null, Null, Null, Null, Null, Number c])"
proof (intro conjI ballI impI)
  show "length (getMonthlySeries sc (properties f)) = 12"
    by (rule getMonthlySeries_length)
next
  fix m :: nat assume "m \<in> {1..12}"
  then have "getMonthlySeries sc (properties f) ! (m - 1) =
      js_nullish (getRegionValue sc f m) Null"
    by (rule getMonthlySeries_nth_feature)
  then show "getMonthlySeries sc (properties f) ! (m - 1) =
      (if getRegionValue sc f m = Null \<or> getRegionValue sc f m = Undefined then Null
       else getRegionValue sc f m)"
    unfolding js_nullish_def .
next
  assume h: "(\<forall>m\<in>{1..12} - {1, 6, 12}.
        getRegionValue sc f m = Null \<or> getRegionValue sc f m = Undefined) \<and>
    getRegionValue sc f 1 = Number a \<and> getRegionValue sc f 6 = Number b \<and>
    getRegionValue sc f 12 = Number c"
  have gap: "js_nullish (getRegionValue sc f m) Null = Null"
    if "m \<in> {2, 3, 4, 5, 7, 8, 9, 10, 11}" for m
  proof -
    from that have "m \<in> {1..12} - {1, 6, 12}" by auto
    with h have "getRegionValue sc f m = Null \<or> getRegionValue sc f m = Undefined" by blast
    then show ?thesis by (auto simp: js_nullish_def)
  qed
  have ser: "getMonthlySeries sc (properties f) =
      map (\<lambda>m. js_nullish (getRegionValue sc f m) Null) [1..<13]"
    by (simp add: getMonthlySeries_map getRegionValue_def)
  show "getMonthlySeries sc (properties f) =
      [Number a, Null, Null, Null, Null, Number b, Null, Null, Null, Null, Null, Number c]"
    unfolding ser months_upt using h by (simp add: gap) (simp add: js_nullish_def)
qed

theorem series_builder_twelve_witness:
  "getMonthlySeries Temperature (properties series_example) =
     [Number (Fin 11), Null, Null, Null, Null, Number (Fin 27), Null, Null, Null, Null, Null,
      Number (Fin 12)] \<and>
   getMonthlySeries Temperature (properties series_example) ! (6 - 1) = Number (Fin 27)"
proof -
  have others: "\<forall>m\<in>{1..12} - {1, 6, 12}.
      getRegionValue Temperature series_example m = Null \<or>
      getRegionValue Temperature series_example m = Undefined"
    by code_simp
  have v1: "getRegionValue Temperature series_example 1 = Number (Fin 11)" by code_simp
  have v6: "getRegionValue Temperature series_example 6 = Number (Fin 27)" by code_simp
  have v12: "getRegionValue Temperature series_example 12 = Number (Fin 12)" by code_simp
  have six: "(6::nat) \<in> {1..12}" by simp
  note inst = series_builder_twelve [of Temperature series_example "Fin 11" "Fin 27" "Fin 12"]
  from inst others v1 v6 v12 have
    "getMonthlySeries Temperature (properties series_example) =
     [Number (Fin 11), Null, Null, Null, Null, Number (Fin 27), Null, Null, Null, Null, Null,
      Number (Fin 12)]" by blast
  moreover from inst six v6 have
    "getMonthlySeries Temperature (properties series_example) ! (6 - 1) = Number (Fin 27)"
    by (metis jsval.distinct(3,5))
  ultimately show ?thesis by blast
qed

section \<open>Order of numbers, minimum and maximum\<close>

lemma num_le_refl: "a \<noteq> NaN \<Longrightarrow> num_le a a"
  by (cases a) simp_all

lemma num_le_trans: "num_le a b \<Longrightarrow> num_le b c \<Longrightarrow> num_le a c"
  by (cases a; cases b; cases c) simp_all

lemma num_lt_imp_le: "num_lt a b \<Longrightarrow> num_le a b"
  by (cases a; cases b) simp_all

lemma not_num_lt_imp_le: "a \<noteq> NaN \<Longrightarrow> b \<noteq> NaN \<Longrightarrow> \<not> num_lt a b \<Longrightarrow> num_le b a"
  by (cases a; cases b) simp_all

lemma num_le_NaN: "num_le a b \<Longrightarrow> a \<noteq> NaN \<and> b \<noteq> NaN"
  by (cases a; cases b) simp_all

lemma Math_min_from_not_NaN:
  "lo \<noteq> NaN \<Longrightarrow> NaN \<notin> set xs \<Longrightarrow> Math_min_from lo xs \<noteq> NaN"
  by (induction xs arbitrary: lo) auto

lemma Math_min_from_le_start:
  "lo \<noteq> NaN \<Longrightarrow> NaN \<notin> set xs \<Longrightarrow> num_le (Math_min_from lo xs) lo"
proof (induction xs arbitrary: lo)
  case Nil
  then show ?case by (simp add: num_le_refl)
next
  case (Cons x xs)
  then have x: "x \<noteq> NaN" and xs: "NaN \<notin> set xs" by auto
  show ?case
  proof (cases "num_lt x lo")
    case True
    with Cons.IH [OF x xs] x show ?thesis
      by (auto intro: num_le_trans num_lt_imp_le)
  next
    case False
    with Cons.IH [OF Cons.prems(1) xs] x show ?thesis by simp
  qed
qed

lemma Math_min_from_le_elem:
  "lo \<noteq> NaN \<Longrightarrow> NaN \<notin> set xs \<Longrightarrow> y \<in> set xs \<Longrightarrow> num_le (Math_min_from lo xs) y"
proof (induction xs arbitrary: lo)
  case Nil
  then show ?case by simp
next
  case (Cons x xs)
  then have x: "x \<noteq> NaN" and xs: "NaN \<notin> set xs" by auto
  let ?lo = "if num_lt x lo then x else lo"
  have lo': "?lo \<noteq> NaN" using x Cons.prems(1) by simp
  have step: "Math_min_from lo (x # xs) = Math_min_from ?lo xs" using x by simp
  show ?case
  proof (cases "y = x")
    case True
    have "num_le (Math_min_from ?lo xs) ?lo" by (rule Math_min_from_le_start [OF lo' xs])
    moreover have "num_le ?lo x"
      using x Cons.prems(1) by (auto intro: num_le_refl not_num_lt_imp_le)
    ultimately show ?thesis unfolding step True by (rule num_le_trans)
  next
    case False
    with Cons.prems have "y \<in> set xs" by simp
    then show ?thesis unfolding step by (rule Cons.IH [OF lo' xs])
  qed
qed

lemma Math_min_from_mem:
  "NaN \<notin> set xs \<Longrightarrow> Math_min_from lo xs = lo \<or> Math_min_from lo xs \<in> set xs"
proof (induction xs arbitrary: lo)
  case Nil
  then show ?case by simp
next
  case (Cons x xs)
  then have x: "x \<noteq> NaN" and xs: "NaN \<notin> set xs" by auto
  from Cons.IH [OF xs, of "if num_lt x lo then x else lo"] x show ?case
    by (auto split: if_splits)
qed

lemma num_lt_PosInf: "x \<noteq> NaN \<Longrightarrow> (if num_lt x PosInf then x else PosInf) = x"
  by (cases x) simp_all

lemma num_lt_NegInf: "x \<noteq> NaN \<Longrightarrow> (if num_lt NegInf x then x else NegInf) = x"
  by (cases x) simp_all

lemma Math_min_mem:
  assumes "xs \<noteq> []" and "NaN \<notin> set xs"
  shows "Math_min xs \<in> set xs"
proof -
  from assms obtain x ys where xs: "xs = x # ys" by (cases xs) auto
  with assms have x: "x \<noteq> NaN" and ys: "NaN \<notin> set ys" by auto
  have "Math_min xs = Math_min_from x ys"
    unfolding Math_min_def xs using x by (simp add: num_lt_PosInf)
  with Math_min_from_mem [OF ys, of x] show ?thesis unfolding xs by auto
qed

lemma Math_min_le:
  assumes "NaN \<notin> set xs" and "y \<in> set xs"
  shows "num_le (Math_min xs) y"
  unfolding Math_min_def using assms by (intro Math_min_from_le_elem) simp_all

lemma Math_max_from_ge_start:
  "hi \<noteq> NaN \<Longrightarrow> NaN \<notin> set xs \<Longrightarrow> num_le hi (Math_max_from hi xs)"
proof (induction xs arbitrary: hi)
  case Nil
  then show ?case by (simp add: num_le_refl)
next
  case (Cons x xs)
  then have x: "x \<noteq> NaN" and xs: "NaN \<notin> set xs" by auto
  show ?case
  proof (cases "num_lt hi x")
    case True
    with Cons.IH [OF x xs] x show ?thesis
      by (auto intro: num_le_trans num_lt_imp_le)
  next
    case False
    with Cons.IH [OF Cons.prems(1) xs] x show ?thesis by simp
  qed
qed

lemma Math_max_from_ge_elem:
  "hi \<noteq> NaN \<Longrightarrow> NaN \<notin> set xs \<Longrightarrow> y \<in> set xs \<Longrightarrow> num_le y (Math_max_from hi xs)"
proof (induction xs arbitrary: hi)
  case Nil
  then show ?case by simp
next
  case (Cons x xs)
  then have x: "x \<noteq> NaN" and xs: "NaN \<notin> set xs" by auto
  let ?hi = "if num_lt hi x then x else hi"
  have hi': "?hi \<noteq> NaN" using x Cons.prems(1) by simp
  have step: "Math_max_from hi (x # xs) = Math_max_from ?hi xs" using x by simp
  show ?case
  proof (cases "y = x")
    case True
    have "num_le x ?hi"
      using x Cons.prems(1) by (auto intro: num_le_refl not_num_lt_imp_le)
    moreover have "num_le ?hi (Math_max_from ?hi xs)"
      by (rule Math_max_from_ge_start [OF hi' xs])
    ultimately show ?thesis unfolding step True by (rule num_le_trans)
  next
    case False
    with Cons.prems have "y \<in> set xs" by simp
    then show ?thesis unfolding step by (rule Cons.IH [OF hi' xs])
  qed
qed

lemma Math_max_from_mem:
  "NaN \<notin> set xs \<Longrightarrow> Math_max_from hi xs = hi \<or> Math_max_from hi xs \<in> set xs"
proof (induction xs arbitrary: hi)
  case Nil
  then show ?case by simp
next
  case (Cons x xs)
  then have x: "x \<noteq> NaN" and xs: "NaN \<notin> set xs" by auto
  from Cons.IH [OF xs, of "if num_lt hi x then x else hi"] x show ?case
    by (auto split: if_splits)
qed

lemma Math_max_mem:
  assumes "xs \<noteq> []" and "NaN \<notin> set xs"
  shows "Math_max xs \<in> set xs"
proof -
  from assms obtain x ys where xs: "xs = x # ys" by (cases xs) auto
  with assms have x: "x \<noteq> NaN" and ys: "NaN \<notin> set ys" by auto
  have "Math_max xs = Math_max_from x ys"
    unfolding Math_max_def xs using x by (simp add: num_lt_NegInf)
  with Math_max_from_mem [OF ys, of x] show ?thesis unfolding xs by auto
qed

lemma Math_max_ge:
  assumes "NaN \<notin> set xs" and "y \<in> set xs"
  shows "num_le y (Math_max xs)"
  unfolding Math_max_def using assms by (intro Math_max_from_ge_elem) simp_all

section \<open>Range calculator\<close>

lemma sample_iff: "sample v = (\<exists>x. v = Number x \<and> x \<noteq> NaN)"
  by (cases v) (simp_all add: sample_def isNaN_def)

lemma fold_push_month_value:
  "fold (push_month_value sc f) ms vals =
     vals @ map ToNumber (filter sample (map (getRegionValue sc f) ms))"
  by (induction ms arbitrary: vals) (simp_all add: push_month_value_def Let_def sample_def)

lemma fold_features:
  "fold (\<lambda>f vals. fold (push_month_value sc f) ms vals) fs acc =
     acc @ concat (map (\<lambda>f. map ToNumber (filter sample (map (getRegionValue sc f) ms))) fs)"
  by (induction fs arbitrary: acc) (simp_all add: fold_push_month_value)

lemma collect_vals_concat:
  "collect_vals sc g =
     concat (map (\<lambda>f. map ToNumber (filter sample (map (getRegionValue sc f) [1..<13])))
       (features g))"
  unfolding collect_vals_def by (simp add: fold_features)

lemma set_collect_vals:
  "set (collect_vals sc g) =
     {x. \<exists>f\<in>set (features g). \<exists>m\<in>{1..12}. getRegionValue sc f m = Number x \<and> x \<noteq> NaN}"
proof (intro set_eqI iffI)
  fix x assume "x \<in> set (collect_vals sc g)"
  then obtain f m where f: "f \<in> set (features g)" and m: "m \<in> set [1..<13]"
      and s: "sample (getRegionValue sc f m)" and x: "x = ToNumber (getRegionValue sc f m)"
    unfolding collect_vals_concat by auto
  from s obtain y where y: "getRegionValue sc f m = Number y" "y \<noteq> NaN"
    by (auto simp: sample_iff)
  from m have m': "m \<in> {1..12}" by auto
  from x y have "getRegionValue sc f m = Number x \<and> x \<noteq> NaN" by simp
  with f m' show "x \<in> {x. \<exists>f\<in>set (features g). \<exists>m\<in>{1..12}.
      getRegionValue sc f m = Number x \<and> x \<noteq> NaN}"
    by blast
next
  fix x assume "x \<in> {x. \<exists>f\<in>set (features g). \<exists>m\<in>{1..12}.
      getRegionValue sc f m = Number x \<and> x \<noteq> NaN}"
  then obtain f m where f: "f \<in> set (features g)" and m: "m \<in> {1..12}"
      and v: "getRegionValue sc f m = Number x" and x: "x \<noteq> NaN"
    by auto
  from m have m': "m \<in> set [1..<13]" by simp
  from v x have s: "sample (getRegionValue sc f m)" by (simp add: sample_iff)
  from v have "x = ToNumber (getRegionValue sc f m)" by simp
  with m' s have "x \<in> set (map ToNumber (filter sample (map (getRegionValue sc f) [1..<13])))"
    by (auto simp del: upt_Suc)
  with f show "x \<in> set (collect_vals sc g)"
    unfolding collect_vals_concat by auto
qed

lemma collect_vals_not_NaN: "NaN \<notin> set (collect_vals sc g)"
  by (simp add: set_collect_vals)

lemma months_set: "set [1..<13] = {1..12::nat}"
  by auto

lemma calcGlobalMinMax_fields:
  "min_stat (calcGlobalMinMax sc g) = Math_min (collect_vals sc g)"
  "max_stat (calcGlobalMinMax sc g) = Math_max (collect_vals sc g)"
  by (simp_all add: calcGlobalMinMax_def Let_def)

text \<open>
  C1: the sample set of \<^verbatim>\<open>calcGlobalMinMax\<close> holds exactly the values of the
  features' months 1 to 12 that are numbers other than \<open>NaN\<close>; the result pairs
  \<^verbatim>\<open>Math.min\<close> and \<^verbatim>\<open>Math.max\<close> of the samples, which for a sample set that is not
  empty are its least and its greatest element. Over the values 2, 5, -1 and an absent
  one the result is min = -1 and max = 5, in both scripts.
\<close>

theorem range_calculator_min_max:
  "set (collect_vals sc g) =
     {x. \<exists>f\<in>set (features g). \<exists>m\<in>{1..12}. getRegionValue sc f m = Number x \<and> x \<noteq> NaN} \<and>
   calcGlobalMinMax sc g =
     \<lparr>min_stat = Math_min (collect_vals sc g), max_stat = Math_max (collect_vals sc g)\<rparr> \<and>
   (collect_vals sc g \<noteq> [] \<longrightarrow>
      min_stat (calcGlobalMinMax sc g) \<in> set (collect_vals sc g) \<and>
      (\<forall>x\<in>set (collect_vals sc g). num_le (min_stat (calcGlobalMinMax sc g)) x) \<and>
      max_stat (calcGlobalMinMax sc g) \<in> set (collect_vals sc g) \<and>
      (\<forall>x\<in>set (collect_vals sc g). num_le x (max_stat (calcGlobalMinMax sc g)))) \<and>
   calcGlobalMinMax sc range_example = \<lparr>min_stat = Fin (- 1), max_stat = Fin 5\<rparr>"
proof (intro conjI impI ballI)
  show "set (collect_vals sc g) =
     {x. \<exists>f\<in>set (features g). \<exists>m\<in>{1..12}. getRegionValue sc f m = Number x \<and> x \<noteq> NaN}"
    by (rule set_collect_vals)
next
  show "calcGlobalMinMax sc g =
     \<lparr>min_stat = Math_min (collect_vals sc g), max_stat = Math_max (collect_vals sc g)\<rparr>"
    by (simp add: calcGlobalMinMax_def Let_def)
next
  assume "collect_vals sc g \<noteq> []"
  then show "min_stat (calcGlobalMinMax sc g) \<in> set (collect_vals sc g)"
    unfolding calcGlobalMinMax_fields by (rule Math_min_mem) (rule collect_vals_not_NaN)
next
  fix x assume "x \<in> set (collect_vals sc g)"
  with collect_vals_not_NaN show "num_le (min_stat (calcGlobalMinMax sc g)) x"
    unfolding calcGlobalMinMax_fields by (rule Math_min_le)
next
  assume "collect_vals sc g \<noteq> []"
  then show "max_stat (calcGlobalMinMax sc g) \<in> set (collect_vals sc g)"
    unfolding calcGlobalMinMax_fields by (rule Math_max_mem) (rule collect_vals_not_NaN)
next
  fix x assume "x \<in> set (collect_vals sc g)"
  with collect_vals_not_NaN show "num_le x (max_stat (calcGlobalMinMax sc g))"
    unfolding calcGlobalMinMax_fields by (rule Math_max_ge)
next
  show "calcGlobalMinMax sc range_example = \<lparr>min_stat = Fin (- 1), max_stat = Fin 5\<rparr>"
    by (cases sc; hypsubst; code_simp)
qed

theorem range_calculator_min_max_witness:
  "collect_vals Temperature range_example \<noteq> [] \<and>
   num_le (min_stat (calcGlobalMinMax Temperature range_example)) (Fin 2) \<and>
   num_le (Fin 2) (max_stat (calcGlobalMinMax Temperature range_example))"
proof -
  have ne: "collect_vals Temperature range_example \<noteq> []" by code_simp
  have mem: "Fin 2 \<in> set (collect_vals Temperature range_example)" by code_simp
  from range_calculator_min_max [of Temperature range_example] ne mem show ?thesis by blast
qed

lemma collect_vals_empty:
  assumes "\<forall>f\<in>set (features g). \<forall>m\<in>{1..12}.
     getRegionValue sc f m = Null \<or> getRegionValue sc f m = Undefined \<or>
     getRegionValue sc f m = Number NaN"
  shows "collect_vals sc g = []"
proof -
  have "set (collect_vals sc g) = {}"
    unfolding set_collect_vals using assms by fastforce
  then show ?thesis by simp
qed

text \<open>
  C2, as amended: when every month value of every feature is \<^verbatim>\<open>null\<close>,
  \<^verbatim>\<open>undefined\<close> or \<open>NaN\<close>, the sample set is empty and the result is the pair
  min = \<open>+Infinity\<close>, max = \<open>-Infinity\<close>, for which min \<open>\<le>\<close> max fails. The function
  returns this pair; nothing is thrown.
\<close>

theorem range_calculator_empty:
  assumes "\<forall>f\<in>set (features g). \<forall>m\<in>{1..12}.
     getRegionValue sc f m = Null \<or> getRegionValue sc f m = Undefined \<or>
     getRegionValue sc f m = Number NaN"
  shows "collect_vals sc g = [] \<and>
     calcGlobalMinMax sc g = \<lparr>min_stat = PosInf, max_stat = NegInf\<rparr> \<and>
     \<not> num_le (min_stat (calcGlobalMinMax sc g)) (max_stat (calcGlobalMinMax sc g))"
proof -
  from assms have "collect_vals sc g = []" by (rule collect_vals_empty)
  then show ?thesis
    by (simp add: calcGlobalMinMax_def Let_def Math_min_def Math_max_def)
qed

theorem range_calculator_empty_witness:
  "calcGlobalMinMax Precipitation empty_example = \<lparr>min_stat = PosInf, max_stat = NegInf\<rparr>"
proof -
  have "list_all (\<lambda>f. list_all (\<lambda>m.
     getRegionValue Precipitation f m = Null \<or> getRegionValue Precipitation f m = Undefined \<or>
     getRegionValue Precipitation f m = Number NaN) [1..<13]) (features empty_example)"
    by code_simp
  then have "\<forall>f\<in>set (features empty_example). \<forall>m\<in>{1..12}.
     getRegionValue Precipitation f m = Null \<or> getRegionValue Precipitation f m = Undefined \<or>
     getRegionValue Precipitation f m = Number NaN"
    unfolding list_all_iff months_set .
  from range_calculator_empty [OF this] show ?thesis by blast
qed

text \<open>
  C2 as stated fails: over a collection without numeric values the returned min and max
  are the numbers \<open>+Infinity\<close> and \<open>-Infinity\<close>, not \<^verbatim>\<open>undefined\<close>.
\<close>

theorem range_calculator_empty_not_undefined:
  "collect_vals Temperature empty_example = [] \<and>
   min_stat (calcGlobalMinMax Temperature empty_example) = PosInf \<and>
   max_stat (calcGlobalMinMax Temperature empty_example) = NegInf \<and>
   Number (min_stat (calcGlobalMinMax Temperature empty_example)) \<noteq> Undefined \<and>
   Number (max_stat (calcGlobalMinMax Temperature empty_example)) \<noteq> Undefined"
  by code_simp

text \<open>
  C3: over a collection with at least one month value that is a number other than
  \<open>NaN\<close>, the pair returned by \<^verbatim>\<open>calcGlobalMinMax\<close> satisfies min \<open>\<le>\<close> max.
\<close>

theorem global_stats_ordered:
  assumes "\<exists>f\<in>set (features g). \<exists>m\<in>{1..12}. \<exists>x.
     getRegionValue sc f m = Number x \<and> x \<noteq> NaN"
  shows "num_le (min_stat (calcGlobalMinMax sc g)) (max_stat (calcGlobalMinMax sc g))"
proof -
  from assms obtain x where x: "x \<in> set (collect_vals sc g)"
    unfolding set_collect_vals by blast
  have "num_le (Math_min (collect_vals sc g)) x"
    using collect_vals_not_NaN x by (rule Math_min_le)
  moreover have "num_le x (Math_max (collect_vals sc g))"
    using collect_vals_not_NaN x by (rule Math_max_ge)
  ultimately show ?thesis
    unfolding calcGlobalMinMax_fields by (rule num_le_trans)
qed

theorem global_stats_ordered_witness:
  "num_le (min_stat (calcGlobalMinMax Precipitation range_example))
     (max_stat (calcGlobalMinMax Precipitation range_example))"
proof -
  have f: "\<lparr>properties = [''temp_01'' \<mapsto> Number (Fin 2), ''temp_02'' \<mapsto> Number (Fin 5),
      ''precip_01'' \<mapsto> Number (Fin 2), ''precip_02'' \<mapsto> Number (Fin 5)]\<rparr>
      \<in> set (features range_example)"
    by (simp add: range_example_def)
  have m: "(2::nat) \<in> {1..12}" by simp
  have v: "getRegionValue Precipitation
      \<lparr>properties = [''temp_01'' \<mapsto> Number (Fin 2), ''temp_02'' \<mapsto> Number (Fin 5),
      ''precip_01'' \<mapsto> Number (Fin 2), ''precip_02'' \<mapsto> Number (Fin 5)]\<rparr> 2 = Number (Fin 5)
      \<and> Fin 5 \<noteq> NaN"
    by code_simp
  from f m v have "\<exists>f\<in>set (features range_example). \<exists>m\<in>{1..12}. \<exists>x.
     getRegionValue Precipitation f m = Number x \<and> x \<noteq> NaN"
    by blast
  then show ?thesis by (rule global_stats_ordered)
qed

section \<open>Colour mappers\<close>

subsection \<open>The normalised parameter and the channels\<close>



























text \<open>
  C4: whatever min and max are, a value that is \<^verbatim>\<open>null\<close>, \<^verbatim>\<open>undefined\<close> or \<open>NaN\<close>
  is mapped to the neutral colour \<^verbatim>\<open>#f0f0f0\<close> by both mappers; the mappers are total, so
  nothing is thrown.
\<close>

theorem color_mapper_absent:
  assumes "v = Null \<or> v = Undefined \<or> v = Number NaN"
  shows "getColor v mn mx = ''#f0f0f0'' \<and> getColorTemp v mn mx = ''#f0f0f0''"
  using assms by (auto simp: getColor_def getColorTemp_def isNaN_def)

theorem color_mapper_absent_witness:
  "getColor (Number NaN) (Fin 0) (Fin 10) = ''#f0f0f0'' \<and>
   getColorTemp (Number NaN) (Fin 0) (Fin 10) = ''#f0f0f0''"
  using color_mapper_absent [of "Number NaN" "Fin 0" "Fin 10"] by simp









section \<open>Legend generator\<close>

lemma legend_step_snoc:
  "legend_step sc mn mx steps =
     (\<lambda>i legendDiv. legendDiv @
        [\<lparr>color_background =
            color_mapper sc
              (Number (js_add mn (js_mul (js_div (Fin (real i)) (Fin (real steps))) (js_sub mx mn))))
              mn mx,
          label_textContent =
            toFixed (js_add mn (js_mul (js_div (Fin (real i)) (Fin (real steps))) (js_sub mx mn)))
              (label_digits sc)\<rparr>])"
  by (intro ext) (simp add: legend_step_def Let_def)

lemma updateLegend_Some:
  "updateLegend sc (Some st) old =
     map (\<lambda>i. \<lparr>color_background =
                  color_mapper sc
                    (Number (js_add (min_stat st)
                       (js_mul (js_div (Fin (real i)) (Fin 5)) (js_sub (max_stat st) (min_stat st)))))
                    (min_stat st) (max_stat st),
                label_textContent =
                  toFixed (js_add (min_stat st)
                       (js_mul (js_div (Fin (real i)) (Fin 5)) (js_sub (max_stat st) (min_stat st))))
                    (label_digits sc)\<rparr>) [0..<6]"
  unfolding updateLegend_def legend_step_snoc
  by (simp add: Let_def fold_snoc_map del: upt_Suc)

text \<open>Before the data is loaded \<^verbatim>\<open>globalStats\<close> is \<^verbatim>\<open>null\<close> and the legend is left alone.\<close>

lemma updateLegend_None: "updateLegend sc None old = old"
  by (simp add: updateLegend_def)


lemma six_upt: "[0..<6] = [0, 1, 2, 3, 4, 5::nat]"
  by code_simp





section \<open>Series builder and \<open>NaN\<close>\<close>

lemma color_mapper_NaN: "color_mapper sc (Number NaN) mn mx = ''#f0f0f0''"
  by (cases sc) (simp_all add: color_mapper_def getColor_def getColorTemp_def isNaN_def)

text \<open>
  C10: for a month \<open>m\<close> from 1 to 12, the entry of the series is \<open>Null\<close> exactly when
  the stored value is \<^verbatim>\<open>null\<close> or \<^verbatim>\<open>undefined\<close>. A stored \<open>NaN\<close> stays \<open>NaN\<close> in the
  series, while the colour mapper of the script paints it with the neutral colour.
\<close>

theorem series_builder_keeps_NaN:
  assumes "m \<in> {1..12}"
  shows "(getMonthlySeries sc (properties f) ! (m - 1) = Null) =
       (getRegionValue sc f m = Null \<or> getRegionValue sc f m = Undefined) \<and>
     (getRegionValue sc f m = Number NaN \<longrightarrow>
        getMonthlySeries sc (properties f) ! (m - 1) = Number NaN \<and>
        color_mapper sc (getRegionValue sc f m) mn mx = ''#f0f0f0'')"
proof -
  have nth: "getMonthlySeries sc (properties f) ! (m - 1) =
      js_nullish (getRegionValue sc f m) Null"
    using assms by (rule getMonthlySeries_nth_feature)
  show ?thesis unfolding nth by (auto simp: js_nullish_def color_mapper_NaN)
qed

theorem series_builder_keeps_NaN_witness:
  "getMonthlySeries Temperature (properties nan_example) ! (3 - 1) = Number NaN \<and>
   color_mapper Temperature (getRegionValue Temperature nan_example 3) (Fin 0) (Fin 10) =
     ''#f0f0f0''"
proof -
  have m: "(3::nat) \<in> {1..12}" by simp
  have v: "getRegionValue Temperature nan_example 3 = Number NaN" by code_simp
  from series_builder_keeps_NaN [OF m, of Temperature nan_example "Fin 0" "Fin 10"] v
  show ?thesis by blast
qed

section \<open>Bounds that are not finite\<close>

text \<open>
  The neutral colour of an absent value apart, the theorems on the colour mappers and on
  the values of the legend take finite bounds. The pair that \<^verbatim>\<open>calcGlobalMinMax\<close>
  returns for a collection without numeric values is not finite: the legend then shows
  six neutral items, and the regions are neutral as well, their values being absent.
  With an infinite bound the channels of a numeric value can be \<open>NaN\<close>.
\<close>

lemma empty_collection_legend:
  "updateLegend sc (Some \<lparr>min_stat = PosInf, max_stat = NegInf\<rparr>) old =
     replicate 6
       \<lparr>color_background = ''#f0f0f0'', label_textContent = toFixed NaN (label_digits sc)\<rparr>"
  unfolding updateLegend_Some six_upt
  by (simp add: js_sub_def inf_of_sign_def color_mapper_NaN numeral_eq_Suc)

lemma infinite_bounds:
  "getColor (Number PosInf) PosInf PosInf = ''rgb(NaN,NaN,255)''"
  "getColorTemp (Number PosInf) PosInf PosInf = ''rgb(NaN,NaN,NaN)''"
  "getColor (Number PosInf) PosInf NegInf = ''rgb(NaN,NaN,255)''"
  "getColor (Number NegInf) PosInf NegInf = ''rgb(NaN,NaN,255)''"
  by code_simp+

end
